theory Spec2Isabelle
  imports Main
begin

section \<open>Strings and time\<close>

text \<open>
  A Go \<open>string\<close> is a sequence of bytes and \<open>len\<close> counts bytes; \<^typ>\<open>string\<close> is a list
  of 8-bit characters and \<^const>\<open>length\<close> counts them, so the two agree.

  \<open>strings.TrimSpace\<close> belongs to Go's standard library. It removes every leading and every
  trailing white-space rune, where white space is Unicode's \<open>White_Space\<close> property. The
  runes with that property and their UTF-8 encodings are listed in \<open>whiteSpace\<close>; since no
  lead byte of these encodings is a continuation byte, decoding the first (last) rune and
  testing it for white space is the same as testing for one of these byte sequences as a
  prefix (suffix).
\<close>

definition whiteSpace :: "string list" where
  "whiteSpace =
    [[CHR 0x09], [CHR 0x0A], [CHR 0x0B], [CHR 0x0C], [CHR 0x0D], [CHR 0x20],
     [CHR 0xC2, CHR 0x85], [CHR 0xC2, CHR 0xA0],
     [CHR 0xE1, CHR 0x9A, CHR 0x80],
     [CHR 0xE2, CHR 0x80, CHR 0x80], [CHR 0xE2, CHR 0x80, CHR 0x81],
     [CHR 0xE2, CHR 0x80, CHR 0x82], [CHR 0xE2, CHR 0x80, CHR 0x83],
     [CHR 0xE2, CHR 0x80, CHR 0x84], [CHR 0xE2, CHR 0x80, CHR 0x85],
     [CHR 0xE2, CHR 0x80, CHR 0x86], [CHR 0xE2, CHR 0x80, CHR 0x87],
     [CHR 0xE2, CHR 0x80, CHR 0x88], [CHR 0xE2, CHR 0x80, CHR 0x89],
     [CHR 0xE2, CHR 0x80, CHR 0x8A],
     [CHR 0xE2, CHR 0x80, CHR 0xA8], [CHR 0xE2, CHR 0x80, CHR 0xA9],
     [CHR 0xE2, CHR 0x80, CHR 0xAF],
     [CHR 0xE2, CHR 0x81, CHR 0x9F],
     [CHR 0xE3, CHR 0x80, CHR 0x80]]"

text \<open>The width in bytes of the white-space rune a string starts (ends) with; 0 if none.\<close>

definition leadWidth :: "string \<Rightarrow> nat" where
  "leadWidth s =
    (case filter (\<lambda>e. take (length e) s = e) whiteSpace of
       [] \<Rightarrow> 0
     | e # _ \<Rightarrow> length e)"

definition trailWidth :: "string \<Rightarrow> nat" where
  "trailWidth s =
    (case filter (\<lambda>e. length e \<le> length s \<and> drop (length s - length e) s = e) whiteSpace of
       [] \<Rightarrow> 0
     | e # _ \<Rightarrow> length e)"

lemma whiteSpace_nonempty: "e \<in> set whiteSpace \<Longrightarrow> 0 < length e"
  by (auto simp: whiteSpace_def)

lemma leadWidth_pos: "0 < leadWidth s \<Longrightarrow> 0 < length s"
  by (auto simp: leadWidth_def whiteSpace_def)

lemma trailWidth_pos: "0 < trailWidth s \<Longrightarrow> 0 < length s"
  by (auto simp: trailWidth_def whiteSpace_def)

function TrimLeft :: "string \<Rightarrow> string" where
  "TrimLeft s = (if leadWidth s = 0 then s else TrimLeft (drop (leadWidth s) s))"
  by pat_completeness auto
termination
  by (relation "measure length") (use leadWidth_pos in fastforce)+

function TrimRight :: "string \<Rightarrow> string" where
  "TrimRight s = (if trailWidth s = 0 then s else TrimRight (take (length s - trailWidth s) s))"
  by pat_completeness auto
termination
  by (relation "measure length") (use trailWidth_pos in fastforce)+

declare TrimLeft.simps [simp del] TrimRight.simps [simp del]

definition TrimSpace :: "string \<Rightarrow> string" where
  "TrimSpace s = TrimRight (TrimLeft s)"


text \<open>
  A \<open>time.Time\<close> in UTC is modelled by the instant it denotes, in nanoseconds since the Unix
  epoch; \<open>After\<close>, \<open>Before\<close> and \<open>Equal\<close> compare instants. \<open>time.Now()\<close> reads the wall
  clock, so every function that calls it takes the reading as an argument.
\<close>

type_synonym Time = int

section \<open>Domain: \<open>internal/domain/blog.go\<close>\<close>

record Blog =
  ID :: string
  Title :: string
  Content :: string
  Author :: string
  CreatedAt :: Time
  UpdatedAt :: Time

text \<open>
  The request structs reuse the field names \<open>Title\<close>, \<open>Content\<close> and \<open>Author\<close>; their
  fields carry the prefix \<open>c\<close> (create) and \<open>u\<close> (update) here. A \<open>*string\<close> field of the update
  request is an option: \<open>None\<close> is \<open>nil\<close>.
\<close>

record CreateBlogRequest =
  cTitle :: string
  cContent :: string
  cAuthor :: string

record UpdateBlogRequest =
  uTitle :: "string option"
  uContent :: "string option"

text \<open>
  \<open>Valid\<close> fills a \<open>map[string]string\<close> statement by statement; a later assignment to the same
  key overwrites the earlier one.
\<close>

definition CreateBlogRequest_Valid :: "CreateBlogRequest \<Rightarrow> (string \<rightharpoonup> string)" where
  "CreateBlogRequest_Valid r =
    (let problems = Map.empty;
         problems = (if TrimSpace (cTitle r) = [] then problems(''title'' \<mapsto> ''title is required'')
                     else problems);
         problems = (if length (cTitle r) > 100
                     then problems(''title'' \<mapsto> ''title must be less than 100 characters'')
                     else problems);
         problems = (if TrimSpace (cContent r) = []
                     then problems(''content'' \<mapsto> ''content is required'')
                     else problems);
         problems = (if length (cContent r) > 5000
                     then problems(''content'' \<mapsto> ''content must be less than 5000 characters'')
                     else problems);
         problems = (if TrimSpace (cAuthor r) = []
                     then problems(''author'' \<mapsto> ''author is required'')
                     else problems);
         problems = (if length (cAuthor r) > 50
                     then problems(''author'' \<mapsto> ''author must be less than 50 characters'')
                     else problems)
     in problems)"

definition UpdateBlogRequest_Valid :: "UpdateBlogRequest \<Rightarrow> (string \<rightharpoonup> string)" where
  "UpdateBlogRequest_Valid r =
    (let problems = Map.empty;
         problems =
           (case uTitle r of
              None \<Rightarrow> problems
            | Some t \<Rightarrow>
                (let problems = (if length t > 100
                                 then problems(''title'' \<mapsto> ''title must be less than 100 characters'')
                                 else problems);
                     problems = (if TrimSpace t = []
                                 then problems(''title'' \<mapsto> ''title cannot be empty'')
                                 else problems)
                 in problems));
         problems =
           (case uContent r of
              None \<Rightarrow> problems
            | Some c \<Rightarrow>
                (let problems = (if length c > 5000
                                 then problems(''content'' \<mapsto> ''content must be less than 5000 characters'')
                                 else problems);
                     problems = (if TrimSpace c = []
                                 then problems(''content'' \<mapsto> ''content cannot be empty'')
                                 else problems)
                 in problems))
     in problems)"

text \<open>
  \<open>uuid.New().String()\<close> is the third-party \<open>google/uuid\<close>: sixteen random bytes printed in
  the canonical form, lower-case hexadecimal digits in groups of 8, 4, 4, 4 and 12 separated by
  hyphens. \<open>NewBlog\<close> takes those random bytes and the clock reading as arguments.
\<close>

definition hexDigit :: "nat \<Rightarrow> char" where
  "hexDigit n = ''0123456789abcdef'' ! (n mod 16)"

definition hexByte :: "nat \<Rightarrow> string" where
  "hexByte b = [hexDigit (b div 16), hexDigit b]"

definition hexEncode :: "nat list \<Rightarrow> string" where
  "hexEncode bs = concat (map hexByte bs)"

definition uuid_String :: "nat list \<Rightarrow> string" where
  "uuid_String u =
     hexEncode (take 4 u) @ ''-'' @ hexEncode (take 2 (drop 4 u)) @ ''-'' @
     hexEncode (take 2 (drop 6 u)) @ ''-'' @ hexEncode (take 2 (drop 8 u)) @ ''-'' @
     hexEncode (take 6 (drop 10 u))"

definition NewBlog :: "nat list \<Rightarrow> Time \<Rightarrow> CreateBlogRequest \<Rightarrow> Blog" where
  "NewBlog uuid now req =
    \<lparr>ID = uuid_String uuid,
     Title = TrimSpace (cTitle req),
     Content = TrimSpace (cContent req),
     Author = TrimSpace (cAuthor req),
     CreatedAt = now,
     UpdatedAt = now\<rparr>"

text \<open>\<open>(b *Blog) Update(req)\<close> mutates \<open>b\<close> in place; the model returns the new value.\<close>

definition Blog_Update :: "Time \<Rightarrow> UpdateBlogRequest \<Rightarrow> Blog \<Rightarrow> Blog" where
  "Blog_Update now req b =
    (let b = (case uTitle req of None \<Rightarrow> b | Some t \<Rightarrow> b\<lparr>Title := TrimSpace t\<rparr>);
         b = (case uContent req of None \<Rightarrow> b | Some c \<Rightarrow> b\<lparr>Content := TrimSpace c\<rparr>)
     in b\<lparr>UpdatedAt := now\<rparr>)"


section \<open>Store: \<open>internal/store/store.go\<close>\<close>

text \<open>
  \<open>MemoryBlogStore\<close> is a \<open>map[string]*domain.Blog\<close> behind a read-write mutex. Every
  operation holds the lock for its whole body, so the operations are atomic and the model is
  sequential: the store is the map, and an operation takes it and returns the new one. No
  operation writes through a stored pointer, so a stored pointer is modelled by the value it
  points to.
\<close>

datatype error =
    ErrNotFound
  | JSONError string
  | DecodeJSON error
  | EncodeJSON error
  | Invalid nat

type_synonym MemoryBlogStore = "string \<rightharpoonup> Blog"

definition NewMemoryBlogStore :: MemoryBlogStore where
  "NewMemoryBlogStore = Map.empty"

definition Create :: "Blog \<Rightarrow> MemoryBlogStore \<Rightarrow> error option \<times> MemoryBlogStore" where
  "Create blog s = (None, s(ID blog \<mapsto> blog))"

definition GetByID :: "string \<Rightarrow> MemoryBlogStore \<Rightarrow> error + Blog" where
  "GetByID bid s = (case s bid of None \<Rightarrow> Inl ErrNotFound | Some blog \<Rightarrow> Inr blog)"

text \<open>
  A Go slice is \<open>nil\<close> or holds elements; \<open>append\<close> to \<open>nil\<close> allocates. \<open>encoding/json\<close>
  prints a \<open>nil\<close> slice as \<open>null\<close> and an empty non-nil one as \<open>[]\<close>.
\<close>

datatype 'a slice = NilSlice | Slice "'a list"

fun elems :: "'a slice \<Rightarrow> 'a list" where
  "elems NilSlice = []"
| "elems (Slice xs) = xs"

fun append_slice :: "'a slice \<Rightarrow> 'a \<Rightarrow> 'a slice" where
  "append_slice NilSlice x = Slice [x]"
| "append_slice (Slice xs) x = Slice (xs @ [x])"

text \<open>
  \<open>for _, blog := range s.blogs\<close> visits every entry once, in an order the runtime chooses
  anew for each loop. The order is an argument: a list of keys, meant to enumerate the domain
  of the map. \<open>range_blogs\<close> gives the values the loop body sees, in that order.
\<close>

definition range_blogs :: "string list \<Rightarrow> MemoryBlogStore \<Rightarrow> Blog list" where
  "range_blogs order s = List.map_filter s order"

fun GetAll_loop :: "Blog list \<Rightarrow> Blog slice \<Rightarrow> Blog slice" where
  "GetAll_loop [] blogs = blogs"
| "GetAll_loop (blog # rest) blogs = GetAll_loop rest (append_slice blogs blog)"

definition GetAll :: "string list \<Rightarrow> MemoryBlogStore \<Rightarrow> Blog slice \<times> error option" where
  "GetAll order s = (GetAll_loop (range_blogs order s) (Slice []), None)"

fun GetByAuthor_loop :: "string \<Rightarrow> Blog list \<Rightarrow> Blog slice \<Rightarrow> Blog slice" where
  "GetByAuthor_loop author [] blogs = blogs"
| "GetByAuthor_loop author (blog # rest) blogs =
     GetByAuthor_loop author rest
       (if Author blog = author then append_slice blogs blog else blogs)"

definition GetByAuthor ::
  "string list \<Rightarrow> string \<Rightarrow> MemoryBlogStore \<Rightarrow> Blog slice \<times> error option" where
  "GetByAuthor order author s = (GetByAuthor_loop author (range_blogs order s) NilSlice, None)"

definition Update :: "string \<Rightarrow> Blog \<Rightarrow> MemoryBlogStore \<Rightarrow> error option \<times> MemoryBlogStore" where
  "Update bid blog s =
     (if s bid = None then (Some ErrNotFound, s) else (None, s(bid \<mapsto> blog)))"

definition Delete :: "string \<Rightarrow> MemoryBlogStore \<Rightarrow> error option \<times> MemoryBlogStore" where
  "Delete bid s =
     (if s bid = None then (Some ErrNotFound, s) else (None, s(bid := None)))"

text \<open>A call of one of the three writing operations, and a sequence of such calls.\<close>

datatype StoreCall = CallCreate Blog | CallUpdate string Blog | CallDelete string

fun call :: "StoreCall \<Rightarrow> MemoryBlogStore \<Rightarrow> MemoryBlogStore" where
  "call (CallCreate blog) s = snd (Create blog s)"
| "call (CallUpdate bid blog) s = snd (Update bid blog s)"
| "call (CallDelete bid) s = snd (Delete bid s)"

fun calls :: "StoreCall list \<Rightarrow> MemoryBlogStore \<Rightarrow> MemoryBlogStore" where
  "calls [] s = s"
| "calls (c # cs) s = calls cs (call c s)"


section \<open>HTTP: requests, the response writer, the logger\<close>

text \<open>
  What a handler reads of an \<open>*http.Request\<close>. \<open>Query\<close> is \<open>r.URL.Query()\<close>, the parsed
  query string as key-value pairs in order; \<open>Values.Get\<close> returns the first value of a key
  and the empty string when the key is absent.
\<close>

record Request =
  Method :: string
  Path :: string
  Query :: "(string \<times> string) list"
  Body :: string
  RemoteAddr :: string
  UserAgent :: string

definition Query_Get :: "(string \<times> string) list \<Rightarrow> string \<Rightarrow> string" where
  "Query_Get q key = (case map_of q key of None \<Rightarrow> [] | Some v \<Rightarrow> v)"

record ErrorResponse =
  Error :: string
  Problems :: "(string \<rightharpoonup> string) option"

text \<open>
  A body is the sequence of values written to it: a value handed to \<open>json.Encoder\<close> (which
  prints it followed by a newline), or plain text. \<open>Problems\<close> is \<open>None\<close> for a \<open>nil\<close> map;
  \<open>omitempty\<close> leaves a \<open>nil\<close> or empty map out of the JSON object.
\<close>

datatype Chunk =
    JSON_Blog Blog
  | JSON_Blogs "Blog slice"
  | JSON_Error ErrorResponse
  | JSON_Map "string \<rightharpoonup> string"
  | Text string

text \<open>
  The \<open>http.ResponseWriter\<close> of \<open>net/http\<close>: \<open>header\<close> is the map \<open>Header()\<close> returns;
  the first \<open>WriteHeader\<close> fixes the status and sends the headers as they are then (\<open>sent\<close>),
  a later one is ignored; the first \<open>Write\<close> without a status sends 200. \<open>headerCalls\<close>
  records the argument of every explicit \<open>WriteHeader\<close> call: that is what the
  \<open>responseWriter\<close> wrapper of the logging middleware sees.
\<close>

record ResponseWriter =
  header :: "string \<rightharpoonup> string"
  status :: "nat option"
  sent :: "string \<rightharpoonup> string"
  body :: "Chunk list"
  headerCalls :: "nat list"

definition NewRecorder :: ResponseWriter where
  "NewRecorder = \<lparr>header = Map.empty, status = None, sent = Map.empty, body = [], headerCalls = []\<rparr>"

definition sendHeader :: "nat \<Rightarrow> ResponseWriter \<Rightarrow> ResponseWriter" where
  "sendHeader code w =
     (if status w = None then w\<lparr>status := Some code, sent := header w\<rparr> else w)"

definition Header_Set :: "string \<Rightarrow> string \<Rightarrow> ResponseWriter \<Rightarrow> ResponseWriter" where
  "Header_Set k v w = w\<lparr>header := (header w)(k \<mapsto> v)\<rparr>"

definition Header_Del :: "string \<Rightarrow> ResponseWriter \<Rightarrow> ResponseWriter" where
  "Header_Del k w = w\<lparr>header := (header w)(k := None)\<rparr>"

definition WriteHeader :: "nat \<Rightarrow> ResponseWriter \<Rightarrow> ResponseWriter" where
  "WriteHeader code w = (sendHeader code w)\<lparr>headerCalls := headerCalls w @ [code]\<rparr>"

definition Write :: "Chunk \<Rightarrow> ResponseWriter \<Rightarrow> ResponseWriter" where
  "Write c w = (let w = sendHeader 200 w in w\<lparr>body := body w @ [c]\<rparr>)"

text \<open>\<open>http.Error\<close> of \<open>net/http\<close>.\<close>

definition http_Error :: "string \<Rightarrow> nat \<Rightarrow> ResponseWriter \<Rightarrow> ResponseWriter" where
  "http_Error msg code w =
     (let w = Header_Del ''Content-Length'' w;
          w = Header_Set ''Content-Type'' ''text/plain; charset=utf-8'' w;
          w = Header_Set ''X-Content-Type-Options'' ''nosniff'' w;
          w = WriteHeader code w
      in Write (Text (msg @ [CHR 0x0A])) w)"

text \<open>The calls made on the logger: level, message, key-value pairs.\<close>

datatype LogLevel = LevelInfo | LevelError

datatype LogValue = LString string | LStatus nat | LDuration int | LError error | LPanic string

type_synonym LogEntry = "LogLevel \<times> string \<times> (string \<times> LogValue) list"

text \<open>
  What a handler works on: the store, the response writer of the request, and the log.
  A handler returns, or panics with a value; the value is modelled by its text.
\<close>

record World =
  store :: MemoryBlogStore
  resp :: ResponseWriter
  logs :: "LogEntry list"

datatype Outcome = Returned | Panicked string

definition log_Info :: "string \<Rightarrow> (string \<times> LogValue) list \<Rightarrow> World \<Rightarrow> World" where
  "log_Info msg kvs w = w\<lparr>logs := logs w @ [(LevelInfo, msg, kvs)]\<rparr>"

definition log_Error :: "string \<Rightarrow> (string \<times> LogValue) list \<Rightarrow> World \<Rightarrow> World" where
  "log_Error msg kvs w = w\<lparr>logs := logs w @ [(LevelError, msg, kvs)]\<rparr>"

text \<open>
  What the world outside the repository answers while one request is served: the clock
  readings (in the logging middleware before and after the inner handler, and in \<open>NewBlog\<close> or
  \<open>Blog.Update\<close>), the random bytes of the UUID, the iteration order of the map, and what
  \<open>json.NewDecoder(r.Body).Decode(&v)\<close> makes of a body for each of the two request types:
  the value left in \<open>v\<close> and the error returned.
\<close>

record Env =
  clockStart :: Time
  clockNow :: Time
  clockEnd :: Time
  randomUUID :: "nat list"
  rangeOrder :: "string list"
  decodeCreate :: "string \<Rightarrow> CreateBlogRequest \<times> error option"
  decodeUpdate :: "string \<Rightarrow> UpdateBlogRequest \<times> error option"

type_synonym Handler = "Env \<Rightarrow> Request \<Rightarrow> World \<Rightarrow> Outcome \<times> World"

section \<open>Codec: \<open>encode\<close> and \<open>decodeValid\<close>\<close>

text \<open>
  \<open>encode\<close> sets the content type, writes the status and hands the value to the JSON
  encoder. The values encoded in this program always serialise and write errors of the
  connection are not modelled, so the error returned is \<open>nil\<close>.
\<close>

definition encode :: "nat \<Rightarrow> Chunk \<Rightarrow> World \<Rightarrow> error option \<times> World" where
  "encode code v w =
     (let rw = Header_Set ''Content-Type'' ''application/json'' (resp w);
          rw = WriteHeader code rw;
          rw = Write v rw
      in (None, w\<lparr>resp := rw\<rparr>))"

text \<open>
  \<open>decodeValid[T Validator]\<close>: \<open>dec\<close> is the JSON decoder at type \<open>T\<close> and \<open>valid\<close> is
  \<open>T\<close>'s method \<open>Valid\<close>. The result is the triple \<open>(T, map[string]string, error)\<close>; the
  problems are \<open>None\<close> for \<open>nil\<close>. A Go map is finite, so \<open>len(problems) > 0\<close> says that the
  map has an entry.
\<close>

definition decodeValid ::
  "(string \<Rightarrow> 'a \<times> error option) \<Rightarrow> ('a \<Rightarrow> (string \<rightharpoonup> string)) \<Rightarrow> Request
     \<Rightarrow> 'a \<times> (string \<rightharpoonup> string) option \<times> error option" where
  "decodeValid dec valid r =
     (case dec (Body r) of
        (v, Some err) \<Rightarrow> (v, None, Some (DecodeJSON err))
      | (v, None) \<Rightarrow>
          (let problems = valid v
           in if problems \<noteq> Map.empty
              then (v, Some problems, Some (Invalid (card (dom problems))))
              else (v, None, None)))"


section \<open>Handlers\<close>

definition respond :: "nat \<Rightarrow> Chunk \<Rightarrow> World \<Rightarrow> World" where
  "respond code v w = snd (encode code v w)"

definition errorBody :: "string \<Rightarrow> Chunk" where
  "errorBody msg = JSON_Error \<lparr>Error = msg, Problems = None\<rparr>"

definition methodNotAllowed :: "string \<Rightarrow> World \<Rightarrow> World" where
  "methodNotAllowed msg w = w\<lparr>resp := http_Error msg 405 (resp w)\<rparr>"

definition handleHealthz :: Handler where
  "handleHealthz env r w =
     (case encode 200 (JSON_Map [''status'' \<mapsto> ''ok'']) w of
        (Some err, w) \<Rightarrow>
          (Returned, log_Error ''failed to encode health response'' [(''error'', LError err)] w)
      | (None, w) \<Rightarrow> (Returned, w))"

definition handleBlogsCreate :: Handler where
  "handleBlogsCreate env r w =
     (if Method r \<noteq> ''POST'' then (Returned, methodNotAllowed ''Method not allowed'' w)
      else
        (case decodeValid (decodeCreate env) CreateBlogRequest_Valid r of
           (req, Some problems, Some err) \<Rightarrow>
             (Returned,
              respond 400 (JSON_Error \<lparr>Error = ''Validation failed'', Problems = Some problems\<rparr>) w)
         | (req, None, Some err) \<Rightarrow>
             (let w = log_Error ''failed to decode request'' [(''error'', LError err)] w
              in (Returned, respond 400 (errorBody ''Invalid request body'') w))
         | (req, problems, None) \<Rightarrow>
             (let blog = NewBlog (randomUUID env) (clockNow env) req
              in case Create blog (store w) of
                   (Some err, s) \<Rightarrow>
                     (let w = w\<lparr>store := s\<rparr>;
                          w = log_Error ''failed to create blog'' [(''error'', LError err)] w
                      in (Returned, respond 500 (errorBody ''Failed to create blog'') w))
                 | (None, s) \<Rightarrow>
                     (let w = w\<lparr>store := s\<rparr>;
                          w = log_Info ''blog created''
                                [(''id'', LString (ID blog)), (''title'', LString (Title blog))] w
                      in (Returned, respond 201 (JSON_Blog blog) w)))))"

definition handleBlogsGet :: Handler where
  "handleBlogsGet env r w =
     (if Method r \<noteq> ''GET'' then (Returned, methodNotAllowed ''Method not allowed'' w)
      else
        (let author = Query_Get (Query r) ''author''
         in case (if author \<noteq> [] then GetByAuthor (rangeOrder env) author (store w)
                  else GetAll (rangeOrder env) (store w)) of
              (blogs, Some err) \<Rightarrow>
                (let w = log_Error ''failed to get blogs'' [(''error'', LError err)] w
                 in (Returned, respond 500 (errorBody ''Failed to retrieve blogs'') w))
            | (blogs, None) \<Rightarrow> (Returned, respond 200 (JSON_Blogs blogs) w)))"

definition handleBlogGet :: "string \<Rightarrow> Handler" where
  "handleBlogGet bid env r w =
     (case GetByID bid (store w) of
        Inl err \<Rightarrow>
          (if err = ErrNotFound then (Returned, respond 404 (errorBody ''Blog not found'') w)
           else
             (let w = log_Error ''failed to get blog''
                        [(''error'', LError err), (''id'', LString bid)] w
              in (Returned, respond 500 (errorBody ''Failed to retrieve blog'') w)))
      | Inr blog \<Rightarrow> (Returned, respond 200 (JSON_Blog blog) w))"

definition handleBlogUpdate :: "string \<Rightarrow> Handler" where
  "handleBlogUpdate bid env r w =
     (case GetByID bid (store w) of
        Inl err \<Rightarrow>
          (if err = ErrNotFound then (Returned, respond 404 (errorBody ''Blog not found'') w)
           else
             (let w = log_Error ''failed to get blog for update''
                        [(''error'', LError err), (''id'', LString bid)] w
              in (Returned, respond 500 (errorBody ''Failed to retrieve blog'') w)))
      | Inr existingBlog \<Rightarrow>
          (case decodeValid (decodeUpdate env) UpdateBlogRequest_Valid r of
             (req, Some problems, Some err) \<Rightarrow>
               (Returned,
                respond 400 (JSON_Error \<lparr>Error = ''Validation failed'', Problems = Some problems\<rparr>) w)
           | (req, None, Some err) \<Rightarrow>
               (let w = log_Error ''failed to decode update request'' [(''error'', LError err)] w
                in (Returned, respond 400 (errorBody ''Invalid request body'') w))
           | (req, problems, None) \<Rightarrow>
               (let existingBlog = Blog_Update (clockNow env) req existingBlog
                in case Update bid existingBlog (store w) of
                     (Some err, s) \<Rightarrow>
                       (let w = w\<lparr>store := s\<rparr>;
                            w = log_Error ''failed to update blog''
                                  [(''error'', LError err), (''id'', LString bid)] w
                        in (Returned, respond 500 (errorBody ''Failed to update blog'') w))
                   | (None, s) \<Rightarrow>
                       (let w = w\<lparr>store := s\<rparr>;
                            w = log_Info ''blog updated'' [(''id'', LString bid)] w
                        in (Returned, respond 200 (JSON_Blog existingBlog) w)))))"

definition handleBlogDelete :: "string \<Rightarrow> Handler" where
  "handleBlogDelete bid env r w =
     (case Delete bid (store w) of
        (Some err, s) \<Rightarrow>
          (let w = w\<lparr>store := s\<rparr>
           in if err = ErrNotFound then (Returned, respond 404 (errorBody ''Blog not found'') w)
              else
                (let w = log_Error ''failed to delete blog''
                           [(''error'', LError err), (''id'', LString bid)] w
                 in (Returned, respond 500 (errorBody ''Failed to delete blog'') w)))
      | (None, s) \<Rightarrow>
          (let w = w\<lparr>store := s\<rparr>;
               w = log_Info ''blog deleted'' [(''id'', LString bid)] w
           in (Returned, w\<lparr>resp := WriteHeader 204 (resp w)\<rparr>)))"

definition TrimPrefix :: "string \<Rightarrow> string \<Rightarrow> string" where
  "TrimPrefix s pre = (if take (length pre) s = pre then drop (length pre) s else s)"

definition handleBlogsByID :: Handler where
  "handleBlogsByID env r w =
     (let path = TrimPrefix (Path r) ''/api/v1/blogs/''
      in if path = [] \<or> CHR ''/'' \<in> set path
         then (Returned, respond 400 (errorBody ''Invalid blog ID'') w)
         else
           (let bid = path
            in if Method r = ''GET'' then handleBlogGet bid env r w
               else if Method r = ''PUT'' then handleBlogUpdate bid env r w
               else if Method r = ''DELETE'' then handleBlogDelete bid env r w
               else (Returned, methodNotAllowed ''Method not allowed'' w)))"

section \<open>Routes: \<open>addRoutes\<close>\<close>

text \<open>
  \<open>addRoutes\<close> registers four patterns on an \<open>http.ServeMux\<close>. A pattern without a method
  matches every method; one that ends in a slash matches every path it is a prefix of, the
  others match one path. The mux answers a path that matches no pattern with 404. (It
  redirects a path that is not in canonical form; such paths are not modelled.)
\<close>

definition http_NotFound :: Handler where
  "http_NotFound env r w = (Returned, w\<lparr>resp := http_Error ''404 page not found'' 404 (resp w)\<rparr>)"

definition blogsCollection :: Handler where
  "blogsCollection env r w =
     (if Method r = ''GET'' then handleBlogsGet env r w
      else if Method r = ''POST'' then handleBlogsCreate env r w
      else (Returned, methodNotAllowed ''Method Not Allowed'' w))"

definition addRoutes :: Handler where
  "addRoutes env r w =
     (if Path r = ''/healthz'' then handleHealthz env r w
      else if Path r = ''/readyz'' then handleHealthz env r w
      else if Path r = ''/api/v1/blogs'' then blogsCollection env r w
      else if take (length ''/api/v1/blogs/'') (Path r) = ''/api/v1/blogs/''
      then handleBlogsByID env r w
      else http_NotFound env r w)"

section \<open>Middleware\<close>

text \<open>
  The logging middleware wraps the writer in a \<open>responseWriter\<close> whose \<open>statusCode\<close> starts
  at 200 and is overwritten by every \<open>WriteHeader\<close> call made through it. The log line is
  written after the inner handler has returned; a panic of the inner handler passes through.
\<close>

definition loggingMiddleware :: "Handler \<Rightarrow> Handler" where
  "loggingMiddleware next env r w =
     (let start = clockStart env;
          before = length (headerCalls (resp w))
      in case next env r w of
           (Panicked v, w) \<Rightarrow> (Panicked v, w)
         | (Returned, w) \<Rightarrow>
             (let statusCode = (case drop before (headerCalls (resp w)) of
                                  [] \<Rightarrow> 200
                                | c # cs \<Rightarrow> last (c # cs));
                  duration = clockEnd env - start
              in (Returned,
                  log_Info ''request completed''
                    [(''method'', LString (Method r)),
                     (''path'', LString (Path r)),
                     (''status'', LStatus statusCode),
                     (''duration'', LDuration duration),
                     (''remote_addr'', LString (RemoteAddr r)),
                     (''user_agent'', LString (UserAgent r))] w)))"

definition corsMiddleware :: "Handler \<Rightarrow> Handler" where
  "corsMiddleware next env r w =
     (let rw = Header_Set ''Access-Control-Allow-Origin'' ''*'' (resp w);
          rw = Header_Set ''Access-Control-Allow-Methods'' ''GET, POST, PUT, DELETE, OPTIONS'' rw;
          rw = Header_Set ''Access-Control-Allow-Headers'' ''Content-Type, Authorization'' rw;
          w = w\<lparr>resp := rw\<rparr>
      in if Method r = ''OPTIONS'' then (Returned, w\<lparr>resp := WriteHeader 200 (resp w)\<rparr>)
         else next env r w)"

text \<open>
  The deferred function of the panic-recovery middleware runs when the inner handler
  panics: \<open>recover()\<close> returns the panic value and stops the panic.
\<close>

definition panicRecoveryMiddleware :: "Handler \<Rightarrow> Handler" where
  "panicRecoveryMiddleware next env r w =
     (case next env r w of
        (Returned, w) \<Rightarrow> (Returned, w)
      | (Panicked err, w) \<Rightarrow>
          (let w = log_Error ''panic recovered''
                     [(''error'', LPanic err), (''path'', LString (Path r)),
                      (''method'', LString (Method r))] w;
               w = w\<lparr>resp := Header_Set ''Content-Type'' ''application/json'' (resp w)\<rparr>;
               w = w\<lparr>resp := WriteHeader 500 (resp w)\<rparr>;
               response = errorBody ''Internal server error''
           in (Returned, respond 500 response w)))"

definition ratelimitMiddleware :: "Handler \<Rightarrow> Handler" where
  "ratelimitMiddleware next env r w = next env r w"

text \<open>
  \<open>NewServer\<close> wraps the mux: CORS innermost, then rate limit, panic recovery, logging.
  \<open>NewServer_handler mux\<close> is the wrapping of any mux; the server's handler wraps the mux
  that \<open>addRoutes\<close> fills.
\<close>

definition NewServer_handler :: "Handler \<Rightarrow> Handler" where
  "NewServer_handler mux =
     (let handler = mux;
          handler = corsMiddleware handler;
          handler = ratelimitMiddleware handler;
          handler = panicRecoveryMiddleware handler;
          handler = loggingMiddleware handler
      in handler)"

definition server :: Handler where
  "server = NewServer_handler addRoutes"



section \<open>Properties of a store\<close>

text \<open>
  Two properties of a store: \<open>keyed\<close>, every entry is filed under
  the id of its blog; \<open>uniqueIDs\<close>, no two entries hold blogs with the same id.
  \<open>keepsID\<close> holds of a call that files a blog under that blog's id.
\<close>

definition keyed :: "MemoryBlogStore \<Rightarrow> bool" where
  "keyed s = (\<forall>k b. s k = Some b \<longrightarrow> ID b = k)"

definition uniqueIDs :: "MemoryBlogStore \<Rightarrow> bool" where
  "uniqueIDs s = (\<forall>k k' b b'. s k = Some b \<and> s k' = Some b' \<and> ID b = ID b' \<longrightarrow> k = k')"

fun keepsID :: "StoreCall \<Rightarrow> bool" where
  "keepsID (CallCreate blog) = True"
| "keepsID (CallUpdate bid blog) = (ID blog = bid)"
| "keepsID (CallDelete bid) = True"

section \<open>Example values\<close>

definition blog1 :: Blog where
  "blog1 = \<lparr>ID = ''1'', Title = ''Blog 1'', Content = ''Content 1'', Author = ''Author A'',
             CreatedAt = 1000, UpdatedAt = 1000\<rparr>"

definition blog2 :: Blog where
  "blog2 = \<lparr>ID = ''2'', Title = ''Blog 2'', Content = ''Content 2'', Author = ''Author B'',
             CreatedAt = 2000, UpdatedAt = 2000\<rparr>"

text \<open>
  A request with a body, and a stand-in for the JSON decoder that is enough to run the
  handlers on examples: it fails on the empty body, as \<open>encoding/json\<close> does with \<open>io.EOF\<close>,
  and otherwise decodes to a request whose title is the body.
\<close>

definition request :: "string \<Rightarrow> string \<Rightarrow> (string \<times> string) list \<Rightarrow> string \<Rightarrow> Request" where
  "request m p q b =
     \<lparr>Method = m, Path = p, Query = q, Body = b, RemoteAddr = ''192.0.2.1:1234'', UserAgent = []\<rparr>"

definition decodeCreate1 :: "string \<Rightarrow> CreateBlogRequest \<times> error option" where
  "decodeCreate1 b =
     (if b = [] then (\<lparr>cTitle = [], cContent = [], cAuthor = []\<rparr>, Some (JSONError ''EOF''))
      else (\<lparr>cTitle = b, cContent = ''  C'', cAuthor = ''A  ''\<rparr>, None))"

definition env1 :: Env where
  "env1 =
     \<lparr>clockStart = 5000, clockNow = 5001, clockEnd = 5002,
      randomUUID = [0, 1, 2, 3, 4, 5, 6, 7, 8, 9, 10, 11, 12, 13, 14, 255],
      rangeOrder = [''2'', ''1''],
      decodeCreate = decodeCreate1,
      decodeUpdate = (\<lambda>b. (\<lparr>uTitle = None, uContent = None\<rparr>, None))\<rparr>"

definition world :: "MemoryBlogStore \<Rightarrow> World" where
  "world s = \<lparr>store = s, resp = NewRecorder, logs = []\<rparr>"

definition store12 :: MemoryBlogStore where
  "store12 = [''1'' \<mapsto> blog1, ''2'' \<mapsto> blog2]"

text \<open>
  Two handlers that panic: at once, as the handler of the middleware's test does, and after
  having written a part of the body.
\<close>

definition panics :: Handler where
  "panics env r w = (Panicked ''test panic'', w)"

definition writeThenPanic :: Handler where
  "writeThenPanic env r w = (Panicked ''boom'', w\<lparr>resp := Write (Text ''partial'') (resp w)\<rparr>)"

section \<open>Properties\<close>

subsection \<open>White space\<close>

lemma TrimLeft_length: "length (TrimLeft s) \<le> length s"
  by (induction s rule: TrimLeft.induct) (subst TrimLeft.simps, auto intro: le_trans)

lemma TrimRight_length: "length (TrimRight s) \<le> length s"
  by (induction s rule: TrimRight.induct) (subst TrimRight.simps, auto intro: le_trans)

lemma TrimSpace_length: "length (TrimSpace s) \<le> length s"
  unfolding TrimSpace_def using TrimLeft_length TrimRight_length le_trans by blast

lemma trailWidth_space: "trailWidth (t @ [CHR 0x20]) = 1"
  by (simp add: trailWidth_def whiteSpace_def)

lemma TrimRight_spaces: "TrimRight (s @ replicate n (CHR 0x20)) = TrimRight s"
proof (induction n)
  case 0
  show ?case by simp
next
  case (Suc n)
  have "s @ replicate (Suc n) (CHR 0x20) = (s @ replicate n (CHR 0x20)) @ [CHR 0x20]"
    by (simp add: replicate_append_same)
  then have "TrimRight (s @ replicate (Suc n) (CHR 0x20)) = TrimRight (s @ replicate n (CHR 0x20))"
    using trailWidth_space [of "s @ replicate n (CHR 0x20)"]
    by (subst TrimRight.simps) (simp del: replicate_Suc)
  with Suc show ?case by simp
qed

lemma TrimSpace_padded: "TrimSpace (''a'' @ replicate n (CHR 0x20)) = ''a''"
proof -
  have l: "TrimLeft (''a'' @ replicate n (CHR 0x20)) = ''a'' @ replicate n (CHR 0x20)"
    by (subst TrimLeft.simps) (simp add: leadWidth_def whiteSpace_def)
  have r: "TrimRight ''a'' = ''a''"
    by code_simp
  show ?thesis
    unfolding TrimSpace_def by (simp only: l TrimRight_spaces r)
qed

subsection \<open>Validation\<close>

text \<open>
  C1, as the code has it. \<open>Valid\<close> reports a field exactly when the field is blank after
  trimming or its length \<^emph>\<open>as received\<close> (untrimmed, in bytes) exceeds the limit of 100, 5000
  or 50; an absent field of an update request is never reported, and no other key is ever
  reported. Since trimming never lengthens a string, every field whose trimmed text exceeds
  the limit is reported as well; the converse does not hold.
\<close>

theorem Valid_reports_field:
  "((''title'' \<in> dom (CreateBlogRequest_Valid r)) = (TrimSpace (cTitle r) = [] \<or> 100 < length (cTitle r))) \<and>
   ((''content'' \<in> dom (CreateBlogRequest_Valid r)) = (TrimSpace (cContent r) = [] \<or> 5000 < length (cContent r))) \<and>
   ((''author'' \<in> dom (CreateBlogRequest_Valid r)) = (TrimSpace (cAuthor r) = [] \<or> 50 < length (cAuthor r))) \<and>
   dom (CreateBlogRequest_Valid r) \<subseteq> {''title'', ''content'', ''author''} \<and>
   ((''title'' \<in> dom (UpdateBlogRequest_Valid u)) =
      (\<exists>t. uTitle u = Some t \<and> (TrimSpace t = [] \<or> 100 < length t))) \<and>
   ((''content'' \<in> dom (UpdateBlogRequest_Valid u)) =
      (\<exists>c. uContent u = Some c \<and> (TrimSpace c = [] \<or> 5000 < length c))) \<and>
   dom (UpdateBlogRequest_Valid u) \<subseteq> {''title'', ''content''} \<and>
   (100 < length (TrimSpace (cTitle r)) \<longrightarrow> ''title'' \<in> dom (CreateBlogRequest_Valid r)) \<and>
   (5000 < length (TrimSpace (cContent r)) \<longrightarrow> ''content'' \<in> dom (CreateBlogRequest_Valid r)) \<and>
   (50 < length (TrimSpace (cAuthor r)) \<longrightarrow> ''author'' \<in> dom (CreateBlogRequest_Valid r))"
proof -
  have c1: "(''title'' \<in> dom (CreateBlogRequest_Valid r)) = (TrimSpace (cTitle r) = [] \<or> 100 < length (cTitle r))"
    by (simp add: CreateBlogRequest_Valid_def Let_def)
  have c2: "(''content'' \<in> dom (CreateBlogRequest_Valid r)) = (TrimSpace (cContent r) = [] \<or> 5000 < length (cContent r))"
    by (simp add: CreateBlogRequest_Valid_def Let_def)
  have c3: "(''author'' \<in> dom (CreateBlogRequest_Valid r)) = (TrimSpace (cAuthor r) = [] \<or> 50 < length (cAuthor r))"
    by (simp add: CreateBlogRequest_Valid_def Let_def)
  have c4: "dom (CreateBlogRequest_Valid r) \<subseteq> {''title'', ''content'', ''author''}"
    by (simp add: CreateBlogRequest_Valid_def Let_def)
  have u1: "(''title'' \<in> dom (UpdateBlogRequest_Valid u)) =
      (\<exists>t. uTitle u = Some t \<and> (TrimSpace t = [] \<or> 100 < length t))"
    by (simp add: UpdateBlogRequest_Valid_def Let_def split: option.splits)
  have u2: "(''content'' \<in> dom (UpdateBlogRequest_Valid u)) =
      (\<exists>c. uContent u = Some c \<and> (TrimSpace c = [] \<or> 5000 < length c))"
    by (simp add: UpdateBlogRequest_Valid_def Let_def split: option.splits)
  have u3: "dom (UpdateBlogRequest_Valid u) \<subseteq> {''title'', ''content''}"
    by (simp add: UpdateBlogRequest_Valid_def Let_def split: option.splits)
  have t1: "100 < length (TrimSpace (cTitle r)) \<longrightarrow> ''title'' \<in> dom (CreateBlogRequest_Valid r)"
    using c1 TrimSpace_length [of "cTitle r"] by auto
  have t2: "5000 < length (TrimSpace (cContent r)) \<longrightarrow> ''content'' \<in> dom (CreateBlogRequest_Valid r)"
    using c2 TrimSpace_length [of "cContent r"] by auto
  have t3: "50 < length (TrimSpace (cAuthor r)) \<longrightarrow> ''author'' \<in> dom (CreateBlogRequest_Valid r)"
    using c3 TrimSpace_length [of "cAuthor r"] by auto
  from c1 c2 c3 c4 u1 u2 u3 t1 t2 t3 show ?thesis
    by blast
qed

theorem Valid_reports_field_witness:
  "''title'' \<in> dom (CreateBlogRequest_Valid
       \<lparr>cTitle = ''   '', cContent = ''Valid content'', cAuthor = ''Valid Author''\<rparr>) \<and>
   ''content'' \<notin> dom (CreateBlogRequest_Valid
       \<lparr>cTitle = ''   '', cContent = ''Valid content'', cAuthor = ''Valid Author''\<rparr>) \<and>
   ''author'' \<notin> dom (CreateBlogRequest_Valid
       \<lparr>cTitle = ''   '', cContent = ''Valid content'', cAuthor = ''Valid Author''\<rparr>) \<and>
   ''title'' \<notin> dom (UpdateBlogRequest_Valid \<lparr>uTitle = None, uContent = Some ''''\<rparr>) \<and>
   ''content'' \<in> dom (UpdateBlogRequest_Valid \<lparr>uTitle = None, uContent = Some ''''\<rparr>)"
proof -
  have "TrimSpace ''   '' = []" "TrimSpace ''Valid content'' = ''Valid content''"
    "TrimSpace ''Valid Author'' = ''Valid Author''" "TrimSpace [] = []"
    by code_simp+
  then show ?thesis
    using Valid_reports_field
      [of "\<lparr>cTitle = ''   '', cContent = ''Valid content'', cAuthor = ''Valid Author''\<rparr>"
          "\<lparr>uTitle = None, uContent = Some ''''\<rparr>"]
    by simp
qed

text \<open>
  C1 as stated fails: a title of one letter followed by 100 spaces is reported, although its
  trimmed text is neither blank nor longer than 100.
\<close>

theorem Valid_trimmed_counterexample:
  "''title'' \<in> dom (CreateBlogRequest_Valid
       \<lparr>cTitle = ''a'' @ replicate 100 (CHR 0x20), cContent = ''c'', cAuthor = ''b''\<rparr>) \<and>
   TrimSpace (''a'' @ replicate 100 (CHR 0x20)) \<noteq> [] \<and>
   \<not> 100 < length (TrimSpace (''a'' @ replicate 100 (CHR 0x20)))"
  by (simp only: TrimSpace_padded) (simp add: CreateBlogRequest_Valid_def Let_def)

subsection \<open>Applying an update\<close>

text \<open>
  C4, as the code has it. \<open>Blog.Update\<close> overwrites the title (content) with the trimmed
  value when the request has one and leaves it alone otherwise, never touches id, author and
  \<open>createdAt\<close>, and sets \<open>updatedAt\<close> to the clock reading whatever the request holds. The
  new \<open>updatedAt\<close> is later than the old one exactly when the clock reading is.
\<close>

theorem Blog_Update_frame:
  "Title (Blog_Update now u b) = (case uTitle u of None \<Rightarrow> Title b | Some t \<Rightarrow> TrimSpace t) \<and>
   Content (Blog_Update now u b) = (case uContent u of None \<Rightarrow> Content b | Some c \<Rightarrow> TrimSpace c) \<and>
   ID (Blog_Update now u b) = ID b \<and>
   Author (Blog_Update now u b) = Author b \<and>
   CreatedAt (Blog_Update now u b) = CreatedAt b \<and>
   UpdatedAt (Blog_Update now u b) = now \<and>
   UpdatedAt (Blog_Update now \<lparr>uTitle = None, uContent = None\<rparr> b) = now \<and>
   (UpdatedAt b < UpdatedAt (Blog_Update now u b)) = (UpdatedAt b < now)"
  by (simp add: Blog_Update_def Let_def split: option.splits)

theorem Blog_Update_frame_witness:
  "Title (Blog_Update 2000 \<lparr>uTitle = Some ''  New Title  '', uContent = None\<rparr>
     \<lparr>ID = ''test-id'', Title = ''Original Title'', Content = ''Original Content'',
      Author = ''Original Author'', CreatedAt = 1000, UpdatedAt = 1000\<rparr>) = ''New Title'' \<and>
   Content (Blog_Update 2000 \<lparr>uTitle = Some ''  New Title  '', uContent = None\<rparr>
     \<lparr>ID = ''test-id'', Title = ''Original Title'', Content = ''Original Content'',
      Author = ''Original Author'', CreatedAt = 1000, UpdatedAt = 1000\<rparr>) = ''Original Content'' \<and>
   UpdatedAt (Blog_Update 2000 \<lparr>uTitle = Some ''  New Title  '', uContent = None\<rparr>
     \<lparr>ID = ''test-id'', Title = ''Original Title'', Content = ''Original Content'',
      Author = ''Original Author'', CreatedAt = 1000, UpdatedAt = 1000\<rparr>) = 2000"
proof -
  have "TrimSpace ''  New Title  '' = ''New Title''"
    by code_simp
  then show ?thesis
    using Blog_Update_frame
      [of 2000 "\<lparr>uTitle = Some ''  New Title  '', uContent = None\<rparr>"
          "\<lparr>ID = ''test-id'', Title = ''Original Title'', Content = ''Original Content'',
            Author = ''Original Author'', CreatedAt = 1000, UpdatedAt = 1000\<rparr>"]
    by simp
qed

text \<open>
  C4 as stated fails: a blog made by \<open>NewBlog\<close> and updated while the clock still shows the
  reading it was made at keeps its \<open>updatedAt\<close>, and a blog whose \<open>updatedAt\<close> lies after the
  clock reading gets an earlier one; in neither case does it become strictly greater.
\<close>

theorem Blog_Update_same_instant_counterexample:
  "\<not> UpdatedAt (NewBlog [] 1000 \<lparr>cTitle = ''T'', cContent = ''C'', cAuthor = ''A''\<rparr>)
       < UpdatedAt (Blog_Update 1000 \<lparr>uTitle = None, uContent = None\<rparr>
           (NewBlog [] 1000 \<lparr>cTitle = ''T'', cContent = ''C'', cAuthor = ''A''\<rparr>)) \<and>
   UpdatedAt blog2 = 2000 \<and>
   UpdatedAt (Blog_Update 1500 \<lparr>uTitle = Some ''New Title'', uContent = None\<rparr> blog2) = 1500"
  by (simp add: Blog_Update_def NewBlog_def blog2_def)

subsection \<open>The store\<close>

text \<open>
  C6. For an id that is not in the store, \<open>Delete\<close> and \<open>Update\<close> return \<open>ErrNotFound\<close> and
  the store they leave is the store they found. For an id that is in the store, \<open>Delete\<close>
  returns no error, the store it leaves has lost that id and agrees with the old one on every
  other id, and \<open>GetByID\<close> on it returns \<open>ErrNotFound\<close>.
\<close>

theorem Delete_Update_NotFound:
  "(s bid = None \<longrightarrow>
      Delete bid s = (Some ErrNotFound, s) \<and> Update bid blog s = (Some ErrNotFound, s)) \<and>
   (s bid \<noteq> None \<longrightarrow>
      fst (Delete bid s) = None \<and>
      dom (snd (Delete bid s)) = dom s - {bid} \<and>
      (\<forall>k. k \<noteq> bid \<longrightarrow> snd (Delete bid s) k = s k) \<and>
      GetByID bid (snd (Delete bid s)) = Inl ErrNotFound)"
  by (auto simp: Delete_def Update_def GetByID_def)

theorem Delete_Update_NotFound_witness:
  "Delete ''2'' [''1'' \<mapsto> blog1] = (Some ErrNotFound, [''1'' \<mapsto> blog1]) \<and>
   Update ''2'' blog2 [''1'' \<mapsto> blog1] = (Some ErrNotFound, [''1'' \<mapsto> blog1]) \<and>
   fst (Delete ''1'' [''1'' \<mapsto> blog1]) = None \<and>
   dom (snd (Delete ''1'' [''1'' \<mapsto> blog1])) = {} \<and>
   GetByID ''1'' (snd (Delete ''1'' [''1'' \<mapsto> blog1])) = Inl ErrNotFound"
  using Delete_Update_NotFound [of "[''1'' \<mapsto> blog1]" "''2''" blog2]
    Delete_Update_NotFound [of "[''1'' \<mapsto> blog1]" "''1''" blog2]
  by auto

lemma keyed_uniqueIDs: "keyed s \<Longrightarrow> uniqueIDs s"
  unfolding keyed_def uniqueIDs_def by metis

lemma keyed_empty: "keyed NewMemoryBlogStore"
  by (simp add: keyed_def NewMemoryBlogStore_def)

lemma keyed_call: "keyed s \<Longrightarrow> keepsID c \<Longrightarrow> keyed (call c s)"
  by (cases c) (auto simp: keyed_def Create_def Update_def Delete_def split: if_splits)

lemma keyed_calls: "keyed s \<Longrightarrow> \<forall>c \<in> set cs. keepsID c \<Longrightarrow> keyed (calls cs s)"
  by (induction cs arbitrary: s) (simp_all add: keyed_call)

text \<open>
  C3, as the code has it. \<open>Create\<close> files a blog under its own id and \<open>Delete\<close> only removes,
  but \<open>Update\<close> files the blog it is given under the id it is given without comparing the
  two. In every store reached from the empty one by calls of \<open>Create\<close>, \<open>Delete\<close>, and
  \<open>Update\<close> with a blog whose id is the id passed, every entry is filed under its blog's id,
  and so no two entries hold blogs with the same id.
\<close>

theorem calls_uniqueIDs:
  "\<forall>c \<in> set cs. keepsID c \<Longrightarrow>
     keyed (calls cs NewMemoryBlogStore) \<and> uniqueIDs (calls cs NewMemoryBlogStore)"
  using keyed_calls [OF keyed_empty] keyed_uniqueIDs by blast

theorem calls_uniqueIDs_witness:
  "keepsID (CallCreate blog1) \<and> keepsID (CallCreate blog2) \<and>
   keepsID (CallUpdate ''2'' (blog2\<lparr>Title := ''New''\<rparr>)) \<and> keepsID (CallDelete ''1'') \<and>
   uniqueIDs (calls [CallCreate blog1, CallCreate blog2,
                     CallUpdate ''2'' (blog2\<lparr>Title := ''New''\<rparr>), CallDelete ''1'']
                NewMemoryBlogStore)"
  using calls_uniqueIDs
    [of "[CallCreate blog1, CallCreate blog2,
          CallUpdate ''2'' (blog2\<lparr>Title := ''New''\<rparr>), CallDelete ''1'']"]
  by (simp add: blog2_def)

text \<open>
  C3 as stated fails: after \<open>Create(blog1)\<close>, \<open>Create(blog2)\<close> and \<open>Update("2", blog1)\<close> the
  entries \<open>"1"\<close> and \<open>"2"\<close> both hold a blog whose id is \<open>"1"\<close>.
\<close>

theorem Update_duplicates_id_counterexample:
  "\<not> uniqueIDs (calls [CallCreate blog1, CallCreate blog2, CallUpdate ''2'' blog1]
                   NewMemoryBlogStore)"
proof
  assume u: "uniqueIDs (calls [CallCreate blog1, CallCreate blog2, CallUpdate ''2'' blog1]
                   NewMemoryBlogStore)"
  have "calls [CallCreate blog1, CallCreate blog2, CallUpdate ''2'' blog1] NewMemoryBlogStore ''1''
          = Some blog1"
    "calls [CallCreate blog1, CallCreate blog2, CallUpdate ''2'' blog1] NewMemoryBlogStore ''2''
          = Some blog1"
    by (simp_all add: Create_def Update_def NewMemoryBlogStore_def blog1_def blog2_def)
  with u have "''1'' = ''2''"
    unfolding uniqueIDs_def by blast
  then show False by simp
qed

subsection \<open>Decoding and validating\<close>

text \<open>
  C5. When the decoder returns an error, \<open>decodeValid\<close> returns that error wrapped, with
  \<open>nil\<close> problems, and the result is the same for every \<open>Valid\<close> method: validation has no
  part in it. When decoding succeeds and \<open>Valid\<close> returns a map with an entry,
  \<open>decodeValid\<close> returns that map and an error that tells the number of problems. When
  decoding succeeds and \<open>Valid\<close> returns an empty map, it returns the decoded value with
  \<open>nil\<close> problems and \<open>nil\<close> error.
\<close>

theorem decodeValid_cases:
  "(dec (Body r) = (v, Some e) \<longrightarrow>
      decodeValid dec valid r = (v, None, Some (DecodeJSON e)) \<and>
      (\<forall>valid'. decodeValid dec valid' r = decodeValid dec valid r)) \<and>
   (dec (Body r) = (v, None) \<and> valid v \<noteq> Map.empty \<longrightarrow>
      decodeValid dec valid r = (v, Some (valid v), Some (Invalid (card (dom (valid v)))))) \<and>
   (dec (Body r) = (v, None) \<and> valid v = Map.empty \<longrightarrow>
      decodeValid dec valid r = (v, None, None))"
  by (simp add: decodeValid_def Let_def)

theorem decodeValid_cases_witness:
  "decodeValid decodeCreate1 CreateBlogRequest_Valid (request ''POST'' ''/api/v1/blogs'' [] [])
     = (\<lparr>cTitle = [], cContent = [], cAuthor = []\<rparr>, None, Some (DecodeJSON (JSONError ''EOF''))) \<and>
   decodeValid decodeCreate1 CreateBlogRequest_Valid (request ''POST'' ''/api/v1/blogs'' [] ''   '')
     = (\<lparr>cTitle = ''   '', cContent = ''  C'', cAuthor = ''A  ''\<rparr>,
        Some [''title'' \<mapsto> ''title is required''], Some (Invalid 1)) \<and>
   decodeValid decodeCreate1 CreateBlogRequest_Valid (request ''POST'' ''/api/v1/blogs'' [] '' T '')
     = (\<lparr>cTitle = '' T '', cContent = ''  C'', cAuthor = ''A  ''\<rparr>, None, None)"
proof -
  have t: "TrimSpace ''   '' = []" "TrimSpace '' T '' = ''T''" "TrimSpace ''  C'' = ''C''"
    "TrimSpace ''A  '' = ''A''"
    by code_simp+
  have v1: "CreateBlogRequest_Valid \<lparr>cTitle = ''   '', cContent = ''  C'', cAuthor = ''A  ''\<rparr>
      = [''title'' \<mapsto> ''title is required'']"
    by (simp add: CreateBlogRequest_Valid_def Let_def t)
  have v2: "CreateBlogRequest_Valid \<lparr>cTitle = '' T '', cContent = ''  C'', cAuthor = ''A  ''\<rparr>
      = Map.empty"
    by (simp add: CreateBlogRequest_Valid_def Let_def t)
  show ?thesis
    using
      decodeValid_cases [of decodeCreate1 "request ''POST'' ''/api/v1/blogs'' [] []"
        "\<lparr>cTitle = [], cContent = [], cAuthor = []\<rparr>" "JSONError ''EOF''" CreateBlogRequest_Valid]
      decodeValid_cases [of decodeCreate1 "request ''POST'' ''/api/v1/blogs'' [] ''   ''"
        "\<lparr>cTitle = ''   '', cContent = ''  C'', cAuthor = ''A  ''\<rparr>" "JSONError ''EOF''"
        CreateBlogRequest_Valid]
      decodeValid_cases [of decodeCreate1 "request ''POST'' ''/api/v1/blogs'' [] '' T ''"
        "\<lparr>cTitle = '' T '', cContent = ''  C'', cAuthor = ''A  ''\<rparr>" "JSONError ''EOF''"
        CreateBlogRequest_Valid]
    by (simp add: decodeCreate1_def request_def v1 v2)
qed

subsection \<open>The response writer\<close>

lemma uuid_String_nonempty: "uuid_String u \<noteq> []"
  by (simp add: uuid_String_def)

lemma respond_fresh:
  "status (resp w) = None \<Longrightarrow>
     status (resp (respond code v w)) = Some code \<and>
     body (resp (respond code v w)) = body (resp w) @ [v] \<and>
     sent (resp (respond code v w)) = (header (resp w))(''Content-Type'' \<mapsto> ''application/json'') \<and>
     store (respond code v w) = store w \<and>
     logs (respond code v w) = logs w"
  by (simp add: respond_def encode_def Let_def Header_Set_def WriteHeader_def Write_def
      sendHeader_def)

lemma log_frame [simp]:
  "resp (log_Info m kvs w) = resp w" "store (log_Info m kvs w) = store w"
  "resp (log_Error m kvs w) = resp w" "store (log_Error m kvs w) = store w"
  by (simp_all add: log_Info_def log_Error_def)

subsection \<open>Creating a blog\<close>

text \<open>
  C7. A create request is valid when \<open>Valid\<close> reports no problem for it. For a \<open>POST\<close>
  whose body decodes to a valid request, the create handler, on a response not yet begun,
  returns with status 201 and writes one blog as the body; that blog's id is not empty, its
  title, content and author are the request's with surrounding white space trimmed, and its
  \<open>createdAt\<close> and \<open>updatedAt\<close> are the same instant. The blog is stored under its id.
\<close>

theorem handleBlogsCreate_valid:
  assumes "Method r = ''POST''"
    and "decodeCreate env (Body r) = (req, None)"
    and "CreateBlogRequest_Valid req = Map.empty"
    and "status (resp w) = None"
    and "body (resp w) = []"
  shows "\<exists>blog w'. handleBlogsCreate env r w = (Returned, w') \<and>
           status (resp w') = Some 201 \<and>
           body (resp w') = [JSON_Blog blog] \<and>
           ID blog \<noteq> [] \<and>
           Title blog = TrimSpace (cTitle req) \<and>
           Content blog = TrimSpace (cContent req) \<and>
           Author blog = TrimSpace (cAuthor req) \<and>
           CreatedAt blog = UpdatedAt blog \<and>
           store w' = (store w)(ID blog \<mapsto> blog)"
proof -
  let ?blog = "NewBlog (randomUUID env) (clockNow env) req"
  let ?w1 = "log_Info ''blog created''
               [(''id'', LString (ID ?blog)), (''title'', LString (Title ?blog))]
               (w\<lparr>store := (store w)(ID ?blog \<mapsto> ?blog)\<rparr>)"
  have dv: "decodeValid (decodeCreate env) CreateBlogRequest_Valid r = (req, None, None)"
    using assms(2,3) by (simp add: decodeValid_def)
  have run: "handleBlogsCreate env r w = (Returned, respond 201 (JSON_Blog ?blog) ?w1)"
    using assms(1) dv by (simp add: handleBlogsCreate_def Create_def Let_def)
  have fresh: "status (resp ?w1) = None" "body (resp ?w1) = []"
    using assms(4,5) by simp_all
  have out: "status (resp (respond 201 (JSON_Blog ?blog) ?w1)) = Some 201"
    "body (resp (respond 201 (JSON_Blog ?blog) ?w1)) = [JSON_Blog ?blog]"
    "store (respond 201 (JSON_Blog ?blog) ?w1) = (store w)(ID ?blog \<mapsto> ?blog)"
    using respond_fresh [OF fresh(1), of 201 "JSON_Blog ?blog"] fresh(2) by simp_all
  have blog: "ID ?blog \<noteq> []" "Title ?blog = TrimSpace (cTitle req)"
    "Content ?blog = TrimSpace (cContent req)" "Author ?blog = TrimSpace (cAuthor req)"
    "CreatedAt ?blog = UpdatedAt ?blog"
    by (simp_all add: NewBlog_def uuid_String_nonempty)
  from run out blog show ?thesis
    by blast
qed


theorem handleBlogsCreate_valid_witness:
  "Method (request ''POST'' ''/api/v1/blogs'' [] '' T '') = ''POST'' \<and>
   decodeCreate env1 (Body (request ''POST'' ''/api/v1/blogs'' [] '' T ''))
     = (\<lparr>cTitle = '' T '', cContent = ''  C'', cAuthor = ''A  ''\<rparr>, None) \<and>
   CreateBlogRequest_Valid \<lparr>cTitle = '' T '', cContent = ''  C'', cAuthor = ''A  ''\<rparr> = Map.empty \<and>
   (\<exists>blog w'. handleBlogsCreate env1 (request ''POST'' ''/api/v1/blogs'' [] '' T '')
                 (world NewMemoryBlogStore) = (Returned, w') \<and>
      status (resp w') = Some 201 \<and> body (resp w') = [JSON_Blog blog] \<and> ID blog \<noteq> [] \<and>
      Title blog = ''T'' \<and> Content blog = ''C'' \<and> Author blog = ''A'' \<and>
      CreatedAt blog = UpdatedAt blog \<and> store w' = [ID blog \<mapsto> blog])"
proof -
  have t: "TrimSpace '' T '' = ''T''" "TrimSpace ''  C'' = ''C''" "TrimSpace ''A  '' = ''A''"
    by code_simp+
  have m: "Method (request ''POST'' ''/api/v1/blogs'' [] '' T '') = ''POST''"
    by (simp add: request_def)
  have d: "decodeCreate env1 (Body (request ''POST'' ''/api/v1/blogs'' [] '' T ''))
     = (\<lparr>cTitle = '' T '', cContent = ''  C'', cAuthor = ''A  ''\<rparr>, None)"
    by (simp add: request_def env1_def decodeCreate1_def)
  have v: "CreateBlogRequest_Valid \<lparr>cTitle = '' T '', cContent = ''  C'', cAuthor = ''A  ''\<rparr>
      = Map.empty"
    by (simp add: CreateBlogRequest_Valid_def Let_def t)
  have f: "status (resp (world NewMemoryBlogStore)) = None"
    "body (resp (world NewMemoryBlogStore)) = []"
    by (simp_all add: world_def NewRecorder_def)
  show ?thesis
    using handleBlogsCreate_valid [OF m d v f] m d v
    by (simp add: t world_def NewMemoryBlogStore_def)
qed

subsection \<open>Listing and filtering\<close>

lemma GetAll_loop_elems: "elems (GetAll_loop bs acc) = elems acc @ bs"
proof (induction bs arbitrary: acc)
  case Nil
  show ?case by simp
next
  case (Cons b bs)
  show ?case
    by (cases acc) (simp_all add: Cons.IH)
qed

lemma GetByAuthor_loop_elems:
  "elems (GetByAuthor_loop a bs acc) = elems acc @ filter (\<lambda>b. Author b = a) bs"
proof (induction bs arbitrary: acc)
  case Nil
  show ?case by simp
next
  case (Cons b bs)
  show ?case
    by (cases acc) (simp_all add: Cons.IH)
qed

lemma GetByAuthor_loop_nil:
  "(GetByAuthor_loop a bs NilSlice = NilSlice) = (\<forall>b \<in> set bs. Author b \<noteq> a)"
proof -
  have keep: "GetByAuthor_loop a bs (Slice xs) \<noteq> NilSlice" for bs xs
    by (induction bs arbitrary: xs) simp_all
  show ?thesis
    by (induction bs) (simp_all add: keep)
qed

lemma range_blogs_enum:
  assumes "set order = dom s"
  shows "range_blogs order s = map (the \<circ> s) order"
proof -
  have "filter (\<lambda>k. s k \<noteq> None) order = order"
    using assms by (auto simp: filter_id_conv)
  then show ?thesis
    by (simp add: range_blogs_def List.map_filter_def)
qed

lemma set_range_blogs:
  assumes "set order = dom s"
  shows "set (range_blogs order s) = ran s"
  using assms by (auto simp: range_blogs_enum ran_def image_iff dom_def) force+


lemma handleBlogsGet_run:
  assumes "Method r = ''GET''"
  shows "handleBlogsGet env r w =
     (Returned,
      respond 200
        (JSON_Blogs
          (if Query_Get (Query r) ''author'' \<noteq> []
           then GetByAuthor_loop (Query_Get (Query r) ''author'')
                  (range_blogs (rangeOrder env) (store w)) NilSlice
           else GetAll_loop (range_blogs (rangeOrder env) (store w)) (Slice []))) w)"
  using assms by (simp add: handleBlogsGet_def GetByAuthor_def GetAll_def Let_def)

text \<open>
  When no stored blog has the author asked for, the slice handed to the JSON encoder is the
  \<open>nil\<close> slice \<open>GetByAuthor\<close> starts from, whereas \<open>GetAll\<close> starts from an allocated one.
\<close>

lemma handleBlogsGet_no_match:
  assumes "Method r = ''GET''"
    and "Query_Get (Query r) ''author'' \<noteq> []"
    and "\<forall>b \<in> set (range_blogs (rangeOrder env) (store w)). Author b \<noteq> Query_Get (Query r) ''author''"
    and "status (resp w) = None"
  shows "body (resp (snd (handleBlogsGet env r w))) = body (resp w) @ [JSON_Blogs NilSlice]"
proof -
  have "GetByAuthor_loop (Query_Get (Query r) ''author'')
          (range_blogs (rangeOrder env) (store w)) NilSlice = NilSlice"
    using assms(3) by (simp add: GetByAuthor_loop_nil)
  then show ?thesis
    using handleBlogsGet_run [OF assms(1), of env w] assms(2) respond_fresh [OF assms(4)]
    by simp
qed

text \<open>
  C2, as the code has it. On a \<open>GET\<close>, with the map iterated in any order that visits every
  entry once, and on a response not yet begun, the list handler returns with status 200 and
  one list of blogs as the body, and leaves the store alone. When the \<open>author\<close> value is not
  empty, the list holds the blogs of exactly the entries whose author is string-equal to it,
  each entry once; when it is empty (or absent), the handler does not filter and the list holds
  the blogs of all entries.
\<close>

theorem handleBlogsGet_filter:
  assumes "Method r = ''GET''"
    and "distinct (rangeOrder env)"
    and "set (rangeOrder env) = dom (store w)"
    and "status (resp w) = None"
    and "body (resp w) = []"
  shows "\<exists>blogs w'. handleBlogsGet env r w = (Returned, w') \<and>
           status (resp w') = Some 200 \<and>
           body (resp w') = [JSON_Blogs blogs] \<and>
           store w' = store w \<and>
           (Query_Get (Query r) ''author'' \<noteq> [] \<longrightarrow>
              elems blogs = map (the \<circ> store w)
                 (filter (\<lambda>k. Author (the (store w k)) = Query_Get (Query r) ''author'')
                    (rangeOrder env)) \<and>
              set (elems blogs) = {b \<in> ran (store w). Author b = Query_Get (Query r) ''author''} \<and>
              length (elems blogs) =
                card {k \<in> dom (store w). Author (the (store w k)) = Query_Get (Query r) ''author''}) \<and>
           (Query_Get (Query r) ''author'' = [] \<longrightarrow>
              elems blogs = map (the \<circ> store w) (rangeOrder env) \<and>
              set (elems blogs) = ran (store w))"
proof -
  let ?X = "Query_Get (Query r) ''author''"
  let ?bs = "range_blogs (rangeOrder env) (store w)"
  let ?blogs = "if ?X \<noteq> [] then GetByAuthor_loop ?X ?bs NilSlice else GetAll_loop ?bs (Slice [])"
  let ?w' = "respond 200 (JSON_Blogs ?blogs) w"
  have run: "handleBlogsGet env r w = (Returned, ?w')"
    using handleBlogsGet_run [OF assms(1)] by simp
  have out: "status (resp ?w') = Some 200" "body (resp ?w') = [JSON_Blogs ?blogs]"
    "store ?w' = store w"
    using respond_fresh [OF assms(4), of 200 "JSON_Blogs ?blogs"] assms(5) by simp_all
  have bs: "?bs = map (the \<circ> store w) (rangeOrder env)"
    using assms(3) by (rule range_blogs_enum)
  have ran: "set ?bs = ran (store w)"
    using assms(3) by (rule set_range_blogs)
  have all: "?X = [] \<longrightarrow> elems ?blogs = map (the \<circ> store w) (rangeOrder env) \<and>
      set (elems ?blogs) = ran (store w)"
    using bs ran by (simp add: GetAll_loop_elems)
  have el: "?X \<noteq> [] \<longrightarrow> elems ?blogs = map (the \<circ> store w)
      (filter (\<lambda>k. Author (the (store w k)) = ?X) (rangeOrder env))"
    by (simp add: GetByAuthor_loop_elems bs filter_map comp_def)
  have st: "?X \<noteq> [] \<longrightarrow> set (elems ?blogs) = {b \<in> ran (store w). Author b = ?X}"
    using ran by (auto simp: GetByAuthor_loop_elems)
  have "distinct (filter (\<lambda>k. Author (the (store w k)) = ?X) (rangeOrder env))"
    using assms(2) by simp
  then have "length (filter (\<lambda>k. Author (the (store w k)) = ?X) (rangeOrder env))
      = card (set (filter (\<lambda>k. Author (the (store w k)) = ?X) (rangeOrder env)))"
    by (rule distinct_card [symmetric])
  moreover have "set (filter (\<lambda>k. Author (the (store w k)) = ?X) (rangeOrder env))
      = {k \<in> dom (store w). Author (the (store w k)) = ?X}"
    using assms(3) by auto
  ultimately have len: "?X \<noteq> [] \<longrightarrow> length (elems ?blogs) =
      card {k \<in> dom (store w). Author (the (store w k)) = ?X}"
    using el by simp
  from run out all el st len show ?thesis
    by blast
qed


theorem handleBlogsGet_filter_witness:
  "Method (request ''GET'' ''/api/v1/blogs'' [(''author'', ''Author A'')] []) = ''GET'' \<and>
   distinct (rangeOrder env1) \<and>
   set (rangeOrder env1) = dom (store (world store12)) \<and>
   (\<exists>blogs w'.
      handleBlogsGet env1 (request ''GET'' ''/api/v1/blogs'' [(''author'', ''Author A'')] [])
        (world store12) = (Returned, w') \<and>
      status (resp w') = Some 200 \<and> body (resp w') = [JSON_Blogs blogs] \<and>
      elems blogs = [blog1])"
proof -
  have m: "Method (request ''GET'' ''/api/v1/blogs'' [(''author'', ''Author A'')] []) = ''GET''"
    by (simp add: request_def)
  have d: "distinct (rangeOrder env1)"
    by (simp add: env1_def)
  have e: "set (rangeOrder env1) = dom (store (world store12))"
    by (auto simp: env1_def world_def store12_def)
  have f: "status (resp (world store12)) = None" "body (resp (world store12)) = []"
    by (simp_all add: world_def NewRecorder_def)
  have q: "Query_Get (Query (request ''GET'' ''/api/v1/blogs'' [(''author'', ''Author A'')] []))
      ''author'' = ''Author A''"
    by (simp add: request_def Query_Get_def)
  have l: "map (the \<circ> store (world store12))
      (filter (\<lambda>k. Author (the (store (world store12) k)) = ''Author A'') (rangeOrder env1))
      = [blog1]"
    by (simp add: env1_def world_def store12_def blog1_def blog2_def)
  show ?thesis
    using handleBlogsGet_filter [OF m d e f] m d e
    by (simp add: q l) blast
qed

text \<open>
  C2 as stated fails for the empty author value: \<open>GET /api/v1/blogs?author=\<close> on a store
  that holds blogs of \<open>Author A\<close> and \<open>Author B\<close> returns both, although the author of neither
  is the empty string.
\<close>

theorem handleBlogsGet_empty_author_counterexample:
  "Query_Get (Query (request ''GET'' ''/api/v1/blogs'' [(''author'', [])] [])) ''author'' = [] \<and>
   status (resp (snd (handleBlogsGet env1 (request ''GET'' ''/api/v1/blogs'' [(''author'', [])] [])
                        (world store12)))) = Some 200 \<and>
   body (resp (snd (handleBlogsGet env1 (request ''GET'' ''/api/v1/blogs'' [(''author'', [])] [])
                      (world store12))))
     = [JSON_Blogs (Slice [blog2, blog1])] \<and>
   Author blog1 = ''Author A'' \<and> Author blog2 = ''Author B''"
  by (simp add: handleBlogsGet_def request_def Query_Get_def GetAll_def range_blogs_def
      List.map_filter_def env1_def world_def store12_def respond_def encode_def Let_def
      Header_Set_def WriteHeader_def Write_def sendHeader_def NewRecorder_def blog1_def blog2_def)

subsection \<open>Panic recovery\<close>

lemma recovery_response:
  "resp (respond 500 v
     (w\<lparr>resp := WriteHeader 500 (Header_Set ''Content-Type'' ''application/json'' rw)\<rparr>))
   = rw\<lparr>header := (header rw)(''Content-Type'' \<mapsto> ''application/json''),
        status := (case status rw of None \<Rightarrow> Some 500 | Some c \<Rightarrow> Some c),
        sent := (case status rw of
                   None \<Rightarrow> (header rw)(''Content-Type'' \<mapsto> ''application/json'')
                 | Some c \<Rightarrow> sent rw),
        body := body rw @ [v],
        headerCalls := headerCalls rw @ [500, 500]\<rparr>"
  by (simp add: respond_def encode_def Let_def Header_Set_def WriteHeader_def Write_def
      sendHeader_def split: option.splits)

lemma panicRecovery_run:
  assumes "next env r w = (Panicked v, w1)"
  shows "panicRecoveryMiddleware next env r w =
     (Returned,
      respond 500 (errorBody ''Internal server error'')
        ((log_Error ''panic recovered''
            [(''error'', LPanic v), (''path'', LString (Path r)), (''method'', LString (Method r))]
            w1)
         \<lparr>resp := WriteHeader 500 (Header_Set ''Content-Type'' ''application/json'' (resp w1))\<rparr>))"
  using assms by (simp add: panicRecoveryMiddleware_def Let_def)

text \<open>
  C8, as the code has it. The handler that the panic-recovery middleware makes never
  panics. When the inner handler panics, the middleware appends the envelope
  \<open>{"error":"Internal server error"}\<close> to whatever body the inner handler has written and
  leaves the store as the inner handler left it; the response is the same whatever the panic
  value is. If the inner handler had not begun the response, the status is 500, the content
  type is JSON and the envelope is the whole body; if it had, the status and headers already
  sent stay as they are.
\<close>

theorem panicRecovery_recovers:
  "fst (panicRecoveryMiddleware next env r w) = Returned \<and>
   (next env r w = (Panicked v, w1) \<longrightarrow>
      (\<exists>w'. panicRecoveryMiddleware next env r w = (Returned, w') \<and>
         store w' = store w1 \<and>
         body (resp w') = body (resp w1) @ [errorBody ''Internal server error''] \<and>
         (status (resp w1) = None \<longrightarrow>
            status (resp w') = Some 500 \<and>
            sent (resp w') ''Content-Type'' = Some ''application/json'') \<and>
         (status (resp w1) = None \<and> body (resp w1) = [] \<longrightarrow>
            body (resp w') = [errorBody ''Internal server error'']) \<and>
         (status (resp w1) \<noteq> None \<longrightarrow>
            status (resp w') = status (resp w1) \<and> sent (resp w') = sent (resp w1)) \<and>
         (\<forall>next' v'. next' env r w = (Panicked v', w1) \<longrightarrow>
            resp (snd (panicRecoveryMiddleware next' env r w)) = resp w')))"
proof -
  have never: "fst (panicRecoveryMiddleware next env r w) = Returned"
    by (simp add: panicRecoveryMiddleware_def Let_def split: prod.splits Outcome.splits)
  have caught: "\<exists>w'. panicRecoveryMiddleware next env r w = (Returned, w') \<and>
         store w' = store w1 \<and>
         body (resp w') = body (resp w1) @ [errorBody ''Internal server error''] \<and>
         (status (resp w1) = None \<longrightarrow>
            status (resp w') = Some 500 \<and>
            sent (resp w') ''Content-Type'' = Some ''application/json'') \<and>
         (status (resp w1) = None \<and> body (resp w1) = [] \<longrightarrow>
            body (resp w') = [errorBody ''Internal server error'']) \<and>
         (status (resp w1) \<noteq> None \<longrightarrow>
            status (resp w') = status (resp w1) \<and> sent (resp w') = sent (resp w1)) \<and>
         (\<forall>next' v'. next' env r w = (Panicked v', w1) \<longrightarrow>
            resp (snd (panicRecoveryMiddleware next' env r w)) = resp w')"
    if p: "next env r w = (Panicked v, w1)"
  proof -
    let ?w = "\<lambda>v. (log_Error ''panic recovered''
            [(''error'', LPanic v), (''path'', LString (Path r)), (''method'', LString (Method r))]
            w1)
         \<lparr>resp := WriteHeader 500 (Header_Set ''Content-Type'' ''application/json'' (resp w1))\<rparr>"
    let ?w' = "\<lambda>v. respond 500 (errorBody ''Internal server error'') (?w v)"
    have run: "panicRecoveryMiddleware next env r w = (Returned, ?w' v)"
      using p by (rule panicRecovery_run)
    have rsp: "resp (?w' u) =
       (resp w1)\<lparr>header := (header (resp w1))(''Content-Type'' \<mapsto> ''application/json''),
        status := (case status (resp w1) of None \<Rightarrow> Some 500 | Some c \<Rightarrow> Some c),
        sent := (case status (resp w1) of
                   None \<Rightarrow> (header (resp w1))(''Content-Type'' \<mapsto> ''application/json'')
                 | Some c \<Rightarrow> sent (resp w1)),
        body := body (resp w1) @ [errorBody ''Internal server error''],
        headerCalls := headerCalls (resp w1) @ [500, 500]\<rparr>" for u
      by (rule recovery_response)
    have st: "store (?w' v) = store w1"
      by (simp add: respond_def encode_def Let_def)
    have other: "resp (snd (panicRecoveryMiddleware next' env r w)) = resp (?w' v)"
      if "next' env r w = (Panicked v', w1)" for next' v'
      using panicRecovery_run [of next' env r w v' w1] that rsp [of v'] rsp [of v] by simp
    show ?thesis
      using run st rsp [of v] other by (intro exI [of _ "?w' v"]) auto
  qed
  from never caught show ?thesis
    by blast
qed


theorem panicRecovery_recovers_witness:
  "panics env1 (request ''GET'' ''/test'' [] []) (world store12)
     = (Panicked ''test panic'', world store12) \<and>
   status (resp (world store12)) = None \<and> body (resp (world store12)) = [] \<and>
   (\<exists>w'. panicRecoveryMiddleware panics env1 (request ''GET'' ''/test'' [] []) (world store12)
            = (Returned, w') \<and>
      store w' = store12 \<and> status (resp w') = Some 500 \<and>
      sent (resp w') ''Content-Type'' = Some ''application/json'' \<and>
      body (resp w') = [errorBody ''Internal server error''])"
proof -
  have p: "panics env1 (request ''GET'' ''/test'' [] []) (world store12)
     = (Panicked ''test panic'', world store12)"
    by (simp add: panics_def)
  have f: "status (resp (world store12)) = None" "body (resp (world store12)) = []"
    "store (world store12) = store12"
    by (simp_all add: world_def NewRecorder_def)
  show ?thesis
    using panicRecovery_recovers
      [of panics env1 "request ''GET'' ''/test'' [] []" "world store12" "''test panic''"
          "world store12"] p f
    by simp blast
qed

text \<open>
  C8 as stated fails for an inner handler that has begun the response when it panics: the
  status already sent (here the 200 of the first write) stays, and the envelope comes after
  the part of the body already written.
\<close>

theorem panicRecovery_after_write_counterexample:
  "fst (writeThenPanic env1 (request ''GET'' ''/test'' [] []) (world store12)) = Panicked ''boom'' \<and>
   status (resp (snd (panicRecoveryMiddleware writeThenPanic env1 (request ''GET'' ''/test'' [] [])
                        (world store12)))) = Some 200 \<and>
   body (resp (snd (panicRecoveryMiddleware writeThenPanic env1 (request ''GET'' ''/test'' [] [])
                      (world store12))))
     = [Text ''partial'', errorBody ''Internal server error'']"
  by (simp add: panicRecoveryMiddleware_def writeThenPanic_def world_def NewRecorder_def
      respond_def encode_def Let_def Header_Set_def WriteHeader_def Write_def sendHeader_def
      log_Error_def)

subsection \<open>CORS preflight\<close>

lemma cors_OPTIONS:
  assumes "Method r = ''OPTIONS''"
  shows "corsMiddleware next env r w =
    (Returned,
     w\<lparr>resp := WriteHeader 200
         (Header_Set ''Access-Control-Allow-Headers'' ''Content-Type, Authorization''
           (Header_Set ''Access-Control-Allow-Methods'' ''GET, POST, PUT, DELETE, OPTIONS''
             (Header_Set ''Access-Control-Allow-Origin'' ''*'' (resp w))))\<rparr>)"
  using assms by (simp add: corsMiddleware_def Let_def)

text \<open>
  C9. For a request whose method is \<open>OPTIONS\<close>, whatever its path, and a response not yet
  begun, the handler \<open>NewServer\<close> composes returns with status 200 and the three CORS headers
  sent, writes no body and leaves the store alone. The result is the same whatever mux the
  chain wraps, so the router and the handlers behind it have no part in it; in particular it
  is what the server itself answers, and it is never the 405 of an unsupported method.
\<close>

theorem OPTIONS_short_circuit:
  assumes "Method r = ''OPTIONS''"
    and "status (resp w) = None"
  shows "\<exists>w'. NewServer_handler mux env r w = (Returned, w') \<and>
           status (resp w') = Some 200 \<and>
           sent (resp w') ''Access-Control-Allow-Origin'' = Some ''*'' \<and>
           sent (resp w') ''Access-Control-Allow-Methods'' = Some ''GET, POST, PUT, DELETE, OPTIONS'' \<and>
           sent (resp w') ''Access-Control-Allow-Headers'' = Some ''Content-Type, Authorization'' \<and>
           body (resp w') = body (resp w) \<and>
           store w' = store w \<and>
           (\<forall>mux'. NewServer_handler mux' env r w = (Returned, w')) \<and>
           server env r w = (Returned, w')"
proof -
  let ?rw = "WriteHeader 200
         (Header_Set ''Access-Control-Allow-Headers'' ''Content-Type, Authorization''
           (Header_Set ''Access-Control-Allow-Methods'' ''GET, POST, PUT, DELETE, OPTIONS''
             (Header_Set ''Access-Control-Allow-Origin'' ''*'' (resp w))))"
  let ?w' = "log_Info ''request completed''
               [(''method'', LString (Method r)), (''path'', LString (Path r)),
                (''status'', LStatus 200), (''duration'', LDuration (clockEnd env - clockStart env)),
                (''remote_addr'', LString (RemoteAddr r)), (''user_agent'', LString (UserAgent r))]
               (w\<lparr>resp := ?rw\<rparr>)"
  have chain: "NewServer_handler m env r w = (Returned, ?w')" for m
    using cors_OPTIONS [OF assms(1), of m env w]
    by (simp add: NewServer_handler_def loggingMiddleware_def panicRecoveryMiddleware_def
        ratelimitMiddleware_def Let_def WriteHeader_def Header_Set_def sendHeader_def)
  have out: "status (resp ?w') = Some 200"
    "sent (resp ?w') ''Access-Control-Allow-Origin'' = Some ''*''"
    "sent (resp ?w') ''Access-Control-Allow-Methods'' = Some ''GET, POST, PUT, DELETE, OPTIONS''"
    "sent (resp ?w') ''Access-Control-Allow-Headers'' = Some ''Content-Type, Authorization''"
    "body (resp ?w') = body (resp w)"
    "store ?w' = store w"
    using assms(2) by (simp_all add: WriteHeader_def Header_Set_def sendHeader_def)
  from chain out show ?thesis
    unfolding server_def by blast
qed

theorem OPTIONS_short_circuit_witness:
  "Method (request ''OPTIONS'' ''/api/v1/blogs/1'' [] []) = ''OPTIONS'' \<and>
   status (resp (world store12)) = None \<and>
   (\<exists>w'. server env1 (request ''OPTIONS'' ''/api/v1/blogs/1'' [] []) (world store12) = (Returned, w') \<and>
      NewServer_handler panics env1 (request ''OPTIONS'' ''/api/v1/blogs/1'' [] []) (world store12)
        = (Returned, w') \<and>
      status (resp w') = Some 200 \<and>
      sent (resp w') ''Access-Control-Allow-Origin'' = Some ''*'' \<and>
      body (resp w') = [] \<and> store w' = store12)"
proof -
  have m: "Method (request ''OPTIONS'' ''/api/v1/blogs/1'' [] []) = ''OPTIONS''"
    by (simp add: request_def)
  have f: "status (resp (world store12)) = None"
    by (simp add: world_def NewRecorder_def)
  have g: "body (resp (world store12)) = []" "store (world store12) = store12"
    by (simp_all add: world_def NewRecorder_def)
  show ?thesis
    using OPTIONS_short_circuit [OF m f, of addRoutes env1] m f g
    by simp blast
qed

subsection \<open>Health\<close>

lemma server_healthz:
  assumes "Path r = ''/healthz'' \<or> Path r = ''/readyz''"
    and "Method r \<noteq> ''OPTIONS''"
    and "status (resp w) = None"
    and "body (resp w) = []"
  shows "fst (server env r w) = Returned \<and>
         status (resp (snd (server env r w))) = Some 200 \<and>
         body (resp (snd (server env r w))) = [JSON_Map [''status'' \<mapsto> ''ok'']] \<and>
         store (snd (server env r w)) = store w"
proof -
  let ?w1 = "w\<lparr>resp := Header_Set ''Access-Control-Allow-Headers'' ''Content-Type, Authorization''
           (Header_Set ''Access-Control-Allow-Methods'' ''GET, POST, PUT, DELETE, OPTIONS''
             (Header_Set ''Access-Control-Allow-Origin'' ''*'' (resp w)))\<rparr>"
  let ?w2 = "respond 200 (JSON_Map [''status'' \<mapsto> ''ok'']) ?w1"
  have f: "status (resp ?w1) = None" "body (resp ?w1) = []" "store ?w1 = store w"
    using assms(3,4) by (simp_all add: Header_Set_def)
  have a: "addRoutes env r ?w1 = (Returned, ?w2)"
    using assms(1) by (auto simp: addRoutes_def handleHealthz_def respond_def encode_def Let_def)
  have c: "corsMiddleware addRoutes env r w = (Returned, ?w2)"
    using assms(2) a by (simp add: corsMiddleware_def Let_def)
  have out: "status (resp ?w2) = Some 200" "body (resp ?w2) = [JSON_Map [''status'' \<mapsto> ''ok'']]"
    "store ?w2 = store w"
    using respond_fresh [OF f(1), of 200 "JSON_Map [''status'' \<mapsto> ''ok'']"] f(2,3) by simp_all
  have s: "fst (server env r w) = Returned" "resp (snd (server env r w)) = resp ?w2"
    "store (snd (server env r w)) = store ?w2"
    using c by (simp_all add: server_def NewServer_handler_def loggingMiddleware_def
        panicRecoveryMiddleware_def ratelimitMiddleware_def Let_def)
  from s out show ?thesis
    by simp
qed

text \<open>
  C10. The mux sends a request for \<open>/healthz\<close> or \<open>/readyz\<close> to the health handler
  whatever its method, and the health handler does not look at the method: on a response not
  yet begun it returns with status 200, content type JSON and the body \<open>{"status":"ok"}\<close>,
  and leaves the store alone. Changing the method of the request changes nothing. The same
  status and body leave the server's whole handler for every method but \<open>OPTIONS\<close>, which the
  CORS middleware answers before the router is reached.
\<close>

theorem healthz_any_method:
  assumes "Path r = ''/healthz'' \<or> Path r = ''/readyz''"
    and "status (resp w) = None"
    and "body (resp w) = []"
  shows "\<exists>w'. addRoutes env r w = (Returned, w') \<and>
           handleHealthz env r w = (Returned, w') \<and>
           status (resp w') = Some 200 \<and>
           sent (resp w') ''Content-Type'' = Some ''application/json'' \<and>
           body (resp w') = [JSON_Map [''status'' \<mapsto> ''ok'']] \<and>
           store w' = store w \<and>
           (\<forall>m. addRoutes env (r\<lparr>Method := m\<rparr>) w = (Returned, w')) \<and>
           (Method r \<noteq> ''OPTIONS'' \<longrightarrow>
              fst (server env r w) = Returned \<and>
              status (resp (snd (server env r w))) = Some 200 \<and>
              body (resp (snd (server env r w))) = [JSON_Map [''status'' \<mapsto> ''ok'']])"
proof -
  let ?w' = "respond 200 (JSON_Map [''status'' \<mapsto> ''ok'']) w"
  have h: "handleHealthz env q w = (Returned, ?w')" for q
    by (simp add: handleHealthz_def respond_def encode_def Let_def)
  have a: "addRoutes env q w = (Returned, ?w')" if "Path q = Path r" for q
    using assms(1) that h [of q] by (auto simp: addRoutes_def)
  have out: "status (resp ?w') = Some 200"
    "sent (resp ?w') ''Content-Type'' = Some ''application/json''"
    "body (resp ?w') = [JSON_Map [''status'' \<mapsto> ''ok'']]"
    "store ?w' = store w"
    using respond_fresh [OF assms(2), of 200 "JSON_Map [''status'' \<mapsto> ''ok'']"] assms(3)
    by simp_all
  have "\<forall>m. addRoutes env (r\<lparr>Method := m\<rparr>) w = (Returned, ?w')"
    by (simp add: a)
  with a [of r] h [of r] out server_healthz [OF assms(1) _ assms(2,3), of env] show ?thesis
    by blast
qed

theorem healthz_any_method_witness:
  "(Path (request ''DELETE'' ''/readyz'' [] []) = ''/healthz'' \<or>
    Path (request ''DELETE'' ''/readyz'' [] []) = ''/readyz'') \<and>
   status (resp (world store12)) = None \<and> body (resp (world store12)) = [] \<and>
   (\<exists>w'. addRoutes env1 (request ''DELETE'' ''/readyz'' [] []) (world store12) = (Returned, w') \<and>
      addRoutes env1 (request ''PATCH'' ''/readyz'' [] []) (world store12) = (Returned, w') \<and>
      status (resp w') = Some 200 \<and>
      body (resp w') = [JSON_Map [''status'' \<mapsto> ''ok'']] \<and> store w' = store12)"
proof -
  have p: "Path (request ''DELETE'' ''/readyz'' [] []) = ''/healthz'' \<or>
    Path (request ''DELETE'' ''/readyz'' [] []) = ''/readyz''"
    by (simp add: request_def)
  have f: "status (resp (world store12)) = None" "body (resp (world store12)) = []"
    by (simp_all add: world_def NewRecorder_def)
  have g: "store (world store12) = store12"
    by (simp add: world_def)
  have q: "(request ''DELETE'' ''/readyz'' [] [])\<lparr>Method := ''PATCH''\<rparr>
      = request ''PATCH'' ''/readyz'' [] []"
    by (simp add: request_def)
  obtain w' where w': "addRoutes env1 (request ''DELETE'' ''/readyz'' [] []) (world store12)
        = (Returned, w')"
      "status (resp w') = Some 200" "body (resp w') = [JSON_Map [''status'' \<mapsto> ''ok'']]"
      "store w' = store (world store12)"
      "\<forall>m. addRoutes env1 ((request ''DELETE'' ''/readyz'' [] [])\<lparr>Method := m\<rparr>) (world store12)
         = (Returned, w')"
    using healthz_any_method [OF p f, of env1] by blast
  from w'(5) q have "addRoutes env1 (request ''PATCH'' ''/readyz'' [] []) (world store12)
      = (Returned, w')"
    by metis
  with w' p f g show ?thesis
    by auto
qed

subsection \<open>Unique ids through the handlers\<close>

lemma respond_store [simp]: "store (respond code v w) = store w"
  by (simp add: respond_def encode_def Let_def)

lemma methodNotAllowed_store [simp]: "store (methodNotAllowed msg w) = store w"
  by (simp add: methodNotAllowed_def)

lemma keyed_Create: "keyed s \<Longrightarrow> keyed (snd (Create blog s))"
  using keyed_call [of s "CallCreate blog"] by simp

lemma keyed_Delete: "keyed s \<Longrightarrow> keyed (snd (Delete bid s))"
  using keyed_call [of s "CallDelete bid"] by simp

lemma keyed_Update: "keyed s \<Longrightarrow> ID blog = bid \<Longrightarrow> keyed (snd (Update bid blog s))"
  using keyed_call [of s "CallUpdate bid blog"] by simp

lemma Blog_Update_ID: "ID (Blog_Update now req b) = ID b"
  by (simp add: Blog_Update_def Let_def split: option.splits)

text \<open>
  The update handler passes to \<open>Update\<close> the blog it fetched under the id, with the id
  untouched: in a store where every entry is filed under its blog's id it is a call that
  keeps ids. So every handler, the router and the server's handler as a whole take such a
  store to such a store.
\<close>

lemma handleBlogsCreate_keyed:
  "keyed (store w) \<Longrightarrow> keyed (store (snd (handleBlogsCreate env r w)))"
  using keyed_Create [of "store w"]
  by (auto simp: handleBlogsCreate_def Let_def Create_def split: prod.splits option.splits)

lemma handleBlogsGet_keyed:
  "keyed (store w) \<Longrightarrow> keyed (store (snd (handleBlogsGet env r w)))"
  by (auto simp: handleBlogsGet_def Let_def split: prod.splits option.splits)

lemma handleBlogGet_keyed:
  "keyed (store w) \<Longrightarrow> keyed (store (snd (handleBlogGet bid env r w)))"
  by (auto simp: handleBlogGet_def Let_def split: sum.splits)

lemma handleBlogDelete_keyed:
  "keyed (store w) \<Longrightarrow> keyed (store (snd (handleBlogDelete bid env r w)))"
  using keyed_Delete [of "store w" bid]
  by (auto simp: handleBlogDelete_def Let_def log_Info_def split: prod.splits option.splits)

lemma handleBlogUpdate_keyed:
  assumes "keyed (store w)"
  shows "keyed (store (snd (handleBlogUpdate bid env r w)))"
proof (cases "GetByID bid (store w)")
  case (Inl err)
  then show ?thesis
    using assms by (simp add: handleBlogUpdate_def Let_def)
next
  case (Inr existingBlog)
  then have "store w bid = Some existingBlog"
    by (simp add: GetByID_def split: option.splits)
  with assms have "ID existingBlog = bid"
    by (simp add: keyed_def)
  then have "keyed s'" if "Update bid (Blog_Update now req existingBlog) (store w) = (e, s')"
    for now req e s'
    using assms that keyed_Update [of "store w" "Blog_Update now req existingBlog" bid]
    by (simp add: Blog_Update_ID)
  then show ?thesis
    using assms Inr
    by (auto simp: handleBlogUpdate_def Let_def split: prod.splits option.splits)
qed

lemma addRoutes_keyed:
  "keyed (store w) \<Longrightarrow> keyed (store (snd (addRoutes env r w)))"
  by (simp add: addRoutes_def blogsCollection_def handleBlogsByID_def handleHealthz_def
      http_NotFound_def encode_def Let_def handleBlogsCreate_keyed handleBlogsGet_keyed
      handleBlogGet_keyed handleBlogDelete_keyed handleBlogUpdate_keyed)

lemma server_keyed:
  assumes "keyed (store w)"
  shows "keyed (store (snd (server env r w)))"
proof -
  have "keyed (store w')" if "addRoutes env r (w\<lparr>resp := rw\<rparr>) = (out, w')" for rw out w'
    using addRoutes_keyed [of "w\<lparr>resp := rw\<rparr>" env r] assms that by simp
  then show ?thesis
    using assms
  by (auto simp: server_def NewServer_handler_def loggingMiddleware_def
      panicRecoveryMiddleware_def ratelimitMiddleware_def corsMiddleware_def Let_def
      log_Info_def log_Error_def split: prod.splits Outcome.splits)
qed

end
